theory Spec2Isabelle
  imports Main
begin

section \<open>The ONNX model converter script (MODEL_CONVERTER.py)\<close>

text \<open>
  The script is a driver over library routines: it loads a model, compares one integer
  field with the target opset, and calls the version converter, the simplifier, the
  checker and the writer in that order, with an \<open>except Exception\<close> handler
  around the simplifier and around the checker. The driver is embedded as it is written;
  the library routines and the builtin \<open>int\<close> are parameters of the embedding.
\<close>

subsection \<open>Data\<close>

type_synonym path = string

text \<open>One entry of \<open>model.opset_import\<close> (an operator-set identifier).\<close>

record opset_id =
  domain :: string
  version :: int

text \<open>
  The model: the script reads \<open>opset_import\<close> and nothing else, the rest of the
  model is the payload \<open>graph\<close> of an arbitrary type.
\<close>

record 'g model =
  opset_import :: "opset_id list"
  graph :: 'g

text \<open>
  Values of \<open>exn\<close> stand for instances of Python's class \<open>Exception\<close>, the
  class that the three handlers of the script name. \<open>IndexError\<close> is what indexing
  an empty \<open>opset_import\<close> raises, \<open>ValueError\<close> what \<open>int\<close> raises on
  a string that is not an integer literal, \<open>LibraryError\<close> is any exception of a
  library routine, with its message, \<open>UnicodeEncodeError\<close> what \<open>print\<close> raises
  when the standard output cannot encode a character of the line. What is raised outside
  that class (a keyboard interrupt during a library call) is caught by no handler of the
  script and is not part of the embedding.
\<close>

datatype exn = IndexError | ValueError string | LibraryError string | UnicodeEncodeError

text \<open>One constructor for each \<open>print\<close> call of the script, with the values it interpolates.\<close>

datatype msg =
    Loading path
  | CurrentOpset int
  | Converting int
  | Simplifying
  | SimplifiedOK
  | SimplificationIssues
  | CouldNotSimplify exn
  | ContinuingNonSimplified
  | Validating
  | ModelValid
  | ValidationWarning exn
  | Saving path
  | SeparatorTop
  | ConversionComplete
  | InputSize nat
  | OutputSize nat
  | TargetOpset int
  | SeparatorBottom
  | NextSteps
  | NextStep1 path
  | NextStep2
  | NextStep3
  | Usage
  | Example
  | ExampleCommand
  | ErrorMsg exn

text \<open>
  The literal text of seven of these lines (lines 50, 52, 54, 61, 63, 75 and 100) starts
  with a symbol outside ASCII: a check mark, a warning sign or a cross mark. The literal
  text of the other lines is ASCII.
\<close>

fun has_emoji :: "msg \<Rightarrow> bool" where
  "has_emoji SimplifiedOK = True"
| "has_emoji SimplificationIssues = True"
| "has_emoji (CouldNotSimplify e) = True"
| "has_emoji ModelValid = True"
| "has_emoji (ValidationWarning e) = True"
| "has_emoji ConversionComplete = True"
| "has_emoji (ErrorMsg e) = True"
| "has_emoji _ = False"

text \<open>
  What a run does, in order: a line printed, or a call of a library routine with its
  arguments and what it returned or raised. \<open>Save\<close> is the only routine that writes
  a file; \<open>Load\<close> and \<open>GetSize\<close> read one.
\<close>

datatype 'g event =
    Print msg
  | Load path "exn + 'g model"
  | ConvertVersion "'g model" int "exn + 'g model"
  | Simplify "'g model" "exn + 'g model \<times> bool"
  | CheckModel "'g model" "exn option"
  | Save "'g model" path "exn option"
  | GetSize path "exn + nat"

text \<open>
  The routines the script calls: \<open>onnx.load\<close>, \<open>version_converter.convert_version\<close>,
  \<open>onnxsim.simplify\<close> (with its keyword arguments \<open>check_n\<close>,
  \<open>skip_fuse_bn\<close>, \<open>skip_optimization\<close>), \<open>onnx.checker.check_model\<close>,
  \<open>onnx.save\<close>, \<open>os.path.getsize\<close> and the builtin \<open>int\<close>. A run calls each
  of them at most once (\<open>getsize\<close> twice, both times after the save), so one function
  per routine describes a run. A routine returns (\<open>Inr\<close>, \<open>None\<close>) or raises
  (\<open>Inl\<close>, \<open>Some\<close>). The last field is the standard output of the process:
  whether its encoding has the three symbols of the script's messages (UTF-8 has them
  all; ASCII, Latin-1 and cp1252 have none of them).
\<close>

record 'g lib =
  onnx_load :: "path \<Rightarrow> exn + 'g model"
  convert_version :: "'g model \<Rightarrow> int \<Rightarrow> exn + 'g model"
  simplify :: "'g model \<Rightarrow> nat \<Rightarrow> bool \<Rightarrow> bool \<Rightarrow> exn + 'g model \<times> bool"
  check_model :: "'g model \<Rightarrow> exn option"
  onnx_save :: "'g model \<Rightarrow> path \<Rightarrow> exn option"
  getsize :: "path \<Rightarrow> exn + nat"
  py_int :: "string \<Rightarrow> exn + int"
  stdout_emoji :: bool

subsection \<open>Statements: the trace is passed along, an exception ends the sequence\<close>

type_synonym ('g, 'a) py = "'g event list \<Rightarrow> 'g event list \<times> (exn + 'a)"

definition py_return :: "'a \<Rightarrow> ('g, 'a) py" where
  "py_return x tr = (tr, Inr x)"

definition py_raise :: "exn \<Rightarrow> ('g, 'a) py" where
  "py_raise e tr = (tr, Inl e)"

definition py_bind :: "('g, 'a) py \<Rightarrow> ('a \<Rightarrow> ('g, 'b) py) \<Rightarrow> ('g, 'b) py" where
  "py_bind f k tr = (case f tr of (tr', Inl e) \<Rightarrow> (tr', Inl e) | (tr', Inr x) \<Rightarrow> k x tr')"

text \<open>\<open>try: f  except Exception as e: h e\<close>\<close>

definition try_except :: "('g, 'a) py \<Rightarrow> (exn \<Rightarrow> ('g, 'a) py) \<Rightarrow> ('g, 'a) py" where
  "try_except f h tr = (case f tr of (tr', Inl e) \<Rightarrow> h e tr' | (tr', Inr x) \<Rightarrow> (tr', Inr x))"

text \<open>
  \<open>print\<close>: a line with one of the three symbols raises UnicodeEncodeError on a
  standard output that cannot encode them, and nothing of the line is written; any
  other line is written. The interpolated text (paths, numbers, messages of exceptions)
  is taken to be encodable, and the \<open>import os\<close> of line 70 not to raise.
\<close>

definition py_print :: "'g lib \<Rightarrow> msg \<Rightarrow> ('g, unit) py" where
  "py_print L m tr =
     (if has_emoji m \<and> \<not> stdout_emoji L then (tr, Inl UnicodeEncodeError)
      else (tr @ [Print m], Inr ()))"

text \<open>
  \<open>try: x = f; body x  except Exception as e: h e a\<close>, where the handler reads a
  variable that the first statement of the \<open>try\<close> assigns: \<open>a\<close> is \<open>Some x\<close>
  when the exception came after the assignment and \<open>None\<close> when \<open>f\<close> raised.
\<close>

definition try_assign_except ::
  "('g, 'a) py \<Rightarrow> ('a \<Rightarrow> ('g, 'b) py) \<Rightarrow> (exn \<Rightarrow> 'a option \<Rightarrow> ('g, 'b) py) \<Rightarrow> ('g, 'b) py" where
  "try_assign_except f body h tr =
     (case f tr of
        (tr', Inl e) \<Rightarrow> h e None tr'
      | (tr', Inr x) \<Rightarrow>
          (case body x tr' of
             (tr'', Inl e) \<Rightarrow> h e (Some x) tr''
           | (tr'', Inr y) \<Rightarrow> (tr'', Inr y)))"

text \<open>\<open>xs[0]\<close>: IndexError on the empty list.\<close>

definition index0 :: "'a list \<Rightarrow> ('g, 'a) py" where
  "index0 xs = (case xs of [] \<Rightarrow> py_raise IndexError | x # _ \<Rightarrow> py_return x)"

text \<open>A call of a library routine: the call and its outcome enter the trace.\<close>

definition call_load :: "'g lib \<Rightarrow> path \<Rightarrow> ('g, 'g model) py" where
  "call_load L p tr = (let r = onnx_load L p in (tr @ [Load p r], r))"

definition call_convert_version :: "'g lib \<Rightarrow> 'g model \<Rightarrow> int \<Rightarrow> ('g, 'g model) py" where
  "call_convert_version L m v tr =
     (let r = convert_version L m v in (tr @ [ConvertVersion m v r], r))"

definition call_simplify ::
  "'g lib \<Rightarrow> 'g model \<Rightarrow> nat \<Rightarrow> bool \<Rightarrow> bool \<Rightarrow> ('g, 'g model \<times> bool) py" where
  "call_simplify L m check_n skip_fuse_bn skip_optimization tr =
     (let r = simplify L m check_n skip_fuse_bn skip_optimization
      in (tr @ [Simplify m r], r))"

definition call_check_model :: "'g lib \<Rightarrow> 'g model \<Rightarrow> ('g, unit) py" where
  "call_check_model L m tr =
     (let r = check_model L m
      in (tr @ [CheckModel m r], case r of Some e \<Rightarrow> Inl e | None \<Rightarrow> Inr ()))"

definition call_save :: "'g lib \<Rightarrow> 'g model \<Rightarrow> path \<Rightarrow> ('g, unit) py" where
  "call_save L m p tr =
     (let r = onnx_save L m p
      in (tr @ [Save m p r], case r of Some e \<Rightarrow> Inl e | None \<Rightarrow> Inr ()))"

definition call_getsize :: "'g lib \<Rightarrow> path \<Rightarrow> ('g, nat) py" where
  "call_getsize L p tr = (let r = getsize L p in (tr @ [GetSize p r], r))"

subsection \<open>convert\_model (lines 20 to 84)\<close>

text \<open>
  The variable \<open>model\<close> is bound again by the conversion and by the simplifier. The
  simplifier's \<open>try\<close> binds it before it prints, so its handler goes on with the old
  model when the simplifier raised and with the new one when the \<open>print\<close> after it
  raised. The sizes are printed in megabytes with two decimals; the message carries the
  byte count they are computed from.
\<close>

definition convert_model :: "'g lib \<Rightarrow> path \<Rightarrow> path \<Rightarrow> int \<Rightarrow> ('g, unit) py" where
  "convert_model L input_path output_path target_opset =
     py_bind (py_print L (Loading input_path)) (\<lambda>_.
     py_bind (call_load L input_path) (\<lambda>model.
     py_bind (index0 (opset_import model)) (\<lambda>entry.
     let current_opset = version entry in
     py_bind (py_print L (CurrentOpset current_opset)) (\<lambda>_.
     py_bind (if current_opset > target_opset
              then py_bind (py_print L (Converting target_opset)) (\<lambda>_.
                   call_convert_version L model target_opset)
              else py_return model) (\<lambda>model.
     py_bind (py_print L Simplifying) (\<lambda>_.
     py_bind (try_assign_except
                (call_simplify L model 3 False False)
                (\<lambda>(model', check).
                   py_bind (if check then py_print L SimplifiedOK
                            else py_print L SimplificationIssues) (\<lambda>_.
                   py_return model'))
                (\<lambda>e assigned.
                   py_bind (py_print L (CouldNotSimplify e)) (\<lambda>_.
                   py_bind (py_print L ContinuingNonSimplified) (\<lambda>_.
                   py_return (case assigned of None \<Rightarrow> model
                              | Some (model', check) \<Rightarrow> model'))))) (\<lambda>model.
     py_bind (py_print L Validating) (\<lambda>_.
     py_bind (try_except
                (py_bind (call_check_model L model) (\<lambda>_. py_print L ModelValid))
                (\<lambda>e. py_print L (ValidationWarning e))) (\<lambda>_.
     py_bind (py_print L (Saving output_path)) (\<lambda>_.
     py_bind (call_save L model output_path) (\<lambda>_.
     py_bind (call_getsize L input_path) (\<lambda>input_size.
     py_bind (call_getsize L output_path) (\<lambda>output_size.
     py_bind (py_print L SeparatorTop) (\<lambda>_.
     py_bind (py_print L ConversionComplete) (\<lambda>_.
     py_bind (py_print L (InputSize input_size)) (\<lambda>_.
     py_bind (py_print L (OutputSize output_size)) (\<lambda>_.
     py_bind (py_print L (TargetOpset target_opset)) (\<lambda>_.
     py_bind (py_print L SeparatorBottom) (\<lambda>_.
     py_bind (py_print L NextSteps) (\<lambda>_.
     py_bind (py_print L (NextStep1 output_path)) (\<lambda>_.
     py_bind (py_print L NextStep2) (\<lambda>_.
     py_print L NextStep3))))))))))))))))))))))"

subsection \<open>The steps of convert\_model\<close>

text \<open>
  The five steps of \<open>convert_model\<close>, each the same statements as above, named so
  that a run can be followed step by step; \<open>convert_model_steps\<close> below shows that
  \<open>convert_model\<close> is their sequence.
\<close>

text \<open>Lines 29 to 38: load, read the opset, convert when it is above the target.\<close>

definition load_and_convert :: "'g lib \<Rightarrow> path \<Rightarrow> int \<Rightarrow> ('g, 'g model) py" where
  "load_and_convert L input_path target_opset =
     py_bind (py_print L (Loading input_path)) (\<lambda>_.
     py_bind (call_load L input_path) (\<lambda>model.
     py_bind (index0 (opset_import model)) (\<lambda>entry.
     let current_opset = version entry in
     py_bind (py_print L (CurrentOpset current_opset)) (\<lambda>_.
     if current_opset > target_opset
     then py_bind (py_print L (Converting target_opset)) (\<lambda>_.
          call_convert_version L model target_opset)
     else py_return model))))"

text \<open>Lines 41 to 55: the simplifier in its \<open>try\<close>.\<close>

definition simplify_step :: "'g lib \<Rightarrow> 'g model \<Rightarrow> ('g, 'g model) py" where
  "simplify_step L model =
     py_bind (py_print L Simplifying) (\<lambda>_.
     try_assign_except
       (call_simplify L model 3 False False)
       (\<lambda>(model', check).
          py_bind (if check then py_print L SimplifiedOK
                   else py_print L SimplificationIssues) (\<lambda>_.
          py_return model'))
       (\<lambda>e assigned.
          py_bind (py_print L (CouldNotSimplify e)) (\<lambda>_.
          py_bind (py_print L ContinuingNonSimplified) (\<lambda>_.
          py_return (case assigned of None \<Rightarrow> model
                     | Some (model', check) \<Rightarrow> model')))))"

text \<open>Lines 58 to 63: the checker in its \<open>try\<close>.\<close>

definition validate_step :: "'g lib \<Rightarrow> 'g model \<Rightarrow> ('g, unit) py" where
  "validate_step L model =
     py_bind (py_print L Validating) (\<lambda>_.
     try_except
       (py_bind (call_check_model L model) (\<lambda>_. py_print L ModelValid))
       (\<lambda>e. py_print L (ValidationWarning e)))"

text \<open>Lines 66 and 67: the save.\<close>

definition save_step :: "'g lib \<Rightarrow> 'g model \<Rightarrow> path \<Rightarrow> ('g, unit) py" where
  "save_step L model output_path =
     py_bind (py_print L (Saving output_path)) (\<lambda>_. call_save L model output_path)"

text \<open>Lines 70 to 84: the sizes and the closing messages.\<close>

definition report :: "'g lib \<Rightarrow> path \<Rightarrow> path \<Rightarrow> int \<Rightarrow> ('g, unit) py" where
  "report L input_path output_path target_opset =
     py_bind (call_getsize L input_path) (\<lambda>input_size.
     py_bind (call_getsize L output_path) (\<lambda>output_size.
     py_bind (py_print L SeparatorTop) (\<lambda>_.
     py_bind (py_print L ConversionComplete) (\<lambda>_.
     py_bind (py_print L (InputSize input_size)) (\<lambda>_.
     py_bind (py_print L (OutputSize output_size)) (\<lambda>_.
     py_bind (py_print L (TargetOpset target_opset)) (\<lambda>_.
     py_bind (py_print L SeparatorBottom) (\<lambda>_.
     py_bind (py_print L NextSteps) (\<lambda>_.
     py_bind (py_print L (NextStep1 output_path)) (\<lambda>_.
     py_bind (py_print L NextStep2) (\<lambda>_.
     py_print L NextStep3)))))))))))"

subsection \<open>The script body (lines 86 to 101)\<close>

text \<open>
  How the process ends: \<open>sys.exit(n)\<close> or the end of the script (\<open>Exited\<close>, with
  0 at the end of the script), or an exception that no handler catches
  (\<open>Traceback\<close>), where the interpreter prints the traceback and exits with status 1.
  The three usage lines are ASCII. The \<open>print\<close> of the handler (line 100) is outside
  every \<open>try\<close>: when it raises, the process ends by that exception.
\<close>

datatype outcome = Exited int | Traceback exn

fun exit_code :: "outcome \<Rightarrow> int" where
  "exit_code (Exited n) = n"
| "exit_code (Traceback e) = 1"

text \<open>
  \<open>int(sys.argv[3]) if len(sys.argv) > 3 else 14\<close>. \<open>argv\<close> is \<open>sys.argv\<close>:
  the program name, then the positional arguments. The script always passes the target
  to \<open>convert_model\<close>, so the default of its third parameter is never used.
\<close>

definition target_arg :: "'g lib \<Rightarrow> string list \<Rightarrow> exn + int" where
  "target_arg L argv = (if length argv > 3 then py_int L (argv ! 3) else Inr 14)"

definition main :: "'g lib \<Rightarrow> string list \<Rightarrow> 'g event list \<times> outcome" where
  "main L argv =
     (if length argv < 3 then
        ([Print Usage, Print Example, Print ExampleCommand], Exited 1)
      else
        let input_path = argv ! 1; output_path = argv ! 2 in
        case target_arg L argv of
          Inl e \<Rightarrow> ([], Traceback e)
        | Inr target_opset \<Rightarrow>
            (case convert_model L input_path output_path target_opset [] of
               (tr, Inl e) \<Rightarrow>
                 (case py_print L (ErrorMsg e) tr of
                    (tr', Inl e') \<Rightarrow> (tr', Traceback e')
                  | (tr', Inr _) \<Rightarrow> (tr', Exited 1))
             | (tr, Inr _) \<Rightarrow> (tr, Exited 0)))"

subsection \<open>Reading a trace\<close>

text \<open>The calls of each routine in a trace, with their arguments, in order.\<close>

fun convert_calls :: "'g event list \<Rightarrow> ('g model \<times> int) list" where
  "convert_calls [] = []"
| "convert_calls (ConvertVersion m v r # tr) = (m, v) # convert_calls tr"
| "convert_calls (_ # tr) = convert_calls tr"

fun simplify_calls :: "'g event list \<Rightarrow> 'g model list" where
  "simplify_calls [] = []"
| "simplify_calls (Simplify m r # tr) = m # simplify_calls tr"
| "simplify_calls (_ # tr) = simplify_calls tr"

fun check_calls :: "'g event list \<Rightarrow> 'g model list" where
  "check_calls [] = []"
| "check_calls (CheckModel m r # tr) = m # check_calls tr"
| "check_calls (_ # tr) = check_calls tr"

fun save_calls :: "'g event list \<Rightarrow> ('g model \<times> path) list" where
  "save_calls [] = []"
| "save_calls (Save m p r # tr) = (m, p) # save_calls tr"
| "save_calls (_ # tr) = save_calls tr"

text \<open>The events that touch a file: a load, a save or a size query.\<close>

fun is_file_io :: "'g event \<Rightarrow> bool" where
  "is_file_io (Load p r) = True"
| "is_file_io (Save m p r) = True"
| "is_file_io (GetSize p r) = True"
| "is_file_io _ = False"

text \<open>The event is a load, a version conversion or a save that raised \<open>e\<close>.\<close>

fun fatal_failure :: "'g event \<Rightarrow> exn \<Rightarrow> bool" where
  "fatal_failure (Load p (Inl x)) e = (x = e)"
| "fatal_failure (ConvertVersion m v (Inl x)) e = (x = e)"
| "fatal_failure (Save m p (Some x)) e = (x = e)"
| "fatal_failure _ e = False"

text \<open>The event is a save or a size query that raised \<open>e\<close>: a step after validation.\<close>

fun late_failure :: "'g event \<Rightarrow> exn \<Rightarrow> bool" where
  "late_failure (Save m p (Some x)) e = (x = e)"
| "late_failure (GetSize p (Inl x)) e = (x = e)"
| "late_failure _ e = False"

text \<open>
  The result of a run is normal, or the exception of a save or size query that is the
  last event of the trace.
\<close>

definition raises_only_late :: "'g event list \<Rightarrow> exn + unit \<Rightarrow> bool" where
  "raises_only_late tr r = (case r of Inr _ \<Rightarrow> True | Inl x \<Rightarrow> late_failure (last tr) x)"

text \<open>The events that follow the first occurrence of an event in a trace.\<close>

fun events_after :: "'g event \<Rightarrow> 'g event list \<Rightarrow> 'g event list" where
  "events_after ev [] = []"
| "events_after ev (x # xs) = (if x = ev then xs else events_after ev xs)"

subsection \<open>A sample library, for concrete runs\<close>

text \<open>
  Three models whose payload is a number, and a library over them that loads the model
  \<open>stored\<close>. The routine named by \<open>fails\<close> raises; the conversion rewrites every
  declared version to the target, the simplifier increments the payload and reports a
  failed comparison when \<open>fails\<close> is \<open>''compare''\<close>; \<open>int\<close> accepts two
  literals; the standard output is UTF-8.
\<close>

definition model_opset11 :: "nat model" where
  "model_opset11 = \<lparr>opset_import = [\<lparr>domain = [], version = 11\<rparr>], graph = 0\<rparr>"

definition model_opset17 :: "nat model" where
  "model_opset17 =
     \<lparr>opset_import = [\<lparr>domain = [], version = 17\<rparr>, \<lparr>domain = ''ai.onnx.ml'', version = 3\<rparr>],
      graph = 0\<rparr>"

definition model_no_opset :: "nat model" where
  "model_no_opset = \<lparr>opset_import = [], graph = 0\<rparr>"

definition sample_lib :: "nat model \<Rightarrow> string \<Rightarrow> nat lib" where
  "sample_lib stored fails =
     \<lparr>onnx_load = (\<lambda>p. if fails = ''load'' then Inl (LibraryError ''load'') else Inr stored),
      convert_version = (\<lambda>m v. if fails = ''convert'' then Inl (LibraryError ''convert'')
                               else Inr (m\<lparr>opset_import := map (\<lambda>e. e\<lparr>version := v\<rparr>) (opset_import m)\<rparr>)),
      simplify = (\<lambda>m check_n skip_fuse_bn skip_optimization.
                    if fails = ''simplify'' then Inl (LibraryError ''simplify'')
                    else Inr (m\<lparr>graph := Suc (graph m)\<rparr>, fails \<noteq> ''compare'')),
      check_model = (\<lambda>m. if fails = ''check'' then Some (LibraryError ''check'') else None),
      onnx_save = (\<lambda>m p. if fails = ''save'' then Some (LibraryError ''save'') else None),
      getsize = (\<lambda>p. Inr 1048576),
      py_int = (\<lambda>s. if s = ''14'' then Inr 14 else if s = ''11'' then Inr 11
                     else Inl (ValueError s)),
      stdout_emoji = True\<rparr>"

text \<open>The same library in a process whose standard output is ASCII.\<close>

definition ascii_stdout :: "'g lib \<Rightarrow> 'g lib" where
  "ascii_stdout L = L\<lparr>stdout_emoji := False\<rparr>"

text \<open>The run of \<open>convert_model\<close> on the sample library, with target opset 14.\<close>

definition sample_run :: "nat model \<Rightarrow> string \<Rightarrow> nat event list \<times> (exn + unit)" where
  "sample_run stored fails =
     convert_model (sample_lib stored fails) ''in.onnx'' ''out.onnx'' 14 []"

section \<open>Properties\<close>

subsection \<open>Running the steps\<close>

lemmas py_defs = py_return_def py_raise_def py_bind_def try_except_def
  try_assign_except_def py_print_def index0_def call_load_def call_convert_version_def
  call_simplify_def call_check_model_def call_save_def call_getsize_def

lemma py_bind_assoc: "py_bind (py_bind f g) h = py_bind f (\<lambda>x. py_bind (g x) h)"
  by (auto simp: py_bind_def fun_eq_iff split: prod.splits sum.splits)

lemma convert_model_steps:
  "convert_model L ip op t =
     py_bind (load_and_convert L ip t) (\<lambda>model.
     py_bind (simplify_step L model) (\<lambda>model.
     py_bind (validate_step L model) (\<lambda>_.
     py_bind (save_step L model op) (\<lambda>_. report L ip op t))))"
  unfolding convert_model_def load_and_convert_def simplify_step_def validate_step_def
    save_step_def report_def
  by (simp only: py_bind_assoc Let_def)

lemma load_and_convert_run:
  "load_and_convert L ip t tr0 =
     (case onnx_load L ip of
        Inl e \<Rightarrow> (tr0 @ [Print (Loading ip), Load ip (Inl e)], Inl e)
      | Inr m \<Rightarrow>
         (case opset_import m of
            [] \<Rightarrow> (tr0 @ [Print (Loading ip), Load ip (Inr m)], Inl IndexError)
          | en # es \<Rightarrow>
             if version en > t
             then (tr0 @ [Print (Loading ip), Load ip (Inr m), Print (CurrentOpset (version en)),
                     Print (Converting t), ConvertVersion m t (convert_version L m t)],
                   convert_version L m t)
             else (tr0 @ [Print (Loading ip), Load ip (Inr m), Print (CurrentOpset (version en))],
                   Inr m)))"
  by (simp add: load_and_convert_def py_defs Let_def split: sum.split list.split)

lemma simplify_step_run:
  "simplify_step L m tr0 =
     (case simplify L m 3 False False of
        Inl e \<Rightarrow>
          if stdout_emoji L
          then (tr0 @ [Print Simplifying, Simplify m (Inl e), Print (CouldNotSimplify e),
                  Print ContinuingNonSimplified], Inr m)
          else (tr0 @ [Print Simplifying, Simplify m (Inl e)], Inl UnicodeEncodeError)
      | Inr (m', check) \<Rightarrow>
          if stdout_emoji L
          then (tr0 @ [Print Simplifying, Simplify m (Inr (m', check)),
                  Print (if check then SimplifiedOK else SimplificationIssues)], Inr m')
          else (tr0 @ [Print Simplifying, Simplify m (Inr (m', check))],
                Inl UnicodeEncodeError))"
  by (simp add: simplify_step_def py_defs Let_def split: sum.split prod.split)

lemma validate_step_run:
  "validate_step L m tr0 =
     (if stdout_emoji L
      then (tr0 @ [Print Validating, CheckModel m (check_model L m),
              Print (case check_model L m of None \<Rightarrow> ModelValid
                     | Some e \<Rightarrow> ValidationWarning e)],
            Inr ())
      else (tr0 @ [Print Validating, CheckModel m (check_model L m)],
            Inl UnicodeEncodeError))"
  by (simp add: validate_step_def py_defs Let_def split: option.split)

lemma save_step_run:
  "save_step L m op tr0 =
     (tr0 @ [Print (Saving op), Save m op (onnx_save L m op)],
      case onnx_save L m op of Some e \<Rightarrow> Inl e | None \<Rightarrow> Inr ())"
  by (simp add: save_step_def py_defs Let_def)

lemma report_run:
  "report L ip op t tr0 =
     (case getsize L ip of
        Inl e \<Rightarrow> (tr0 @ [GetSize ip (Inl e)], Inl e)
      | Inr a \<Rightarrow>
         (case getsize L op of
            Inl e \<Rightarrow> (tr0 @ [GetSize ip (Inr a), GetSize op (Inl e)], Inl e)
          | Inr b \<Rightarrow>
             if stdout_emoji L
             then (tr0 @ [GetSize ip (Inr a), GetSize op (Inr b), Print SeparatorTop,
                     Print ConversionComplete, Print (InputSize a), Print (OutputSize b),
                     Print (TargetOpset t), Print SeparatorBottom, Print NextSteps,
                     Print (NextStep1 op), Print NextStep2, Print NextStep3], Inr ())
             else (tr0 @ [GetSize ip (Inr a), GetSize op (Inr b), Print SeparatorTop],
                   Inl UnicodeEncodeError)))"
  by (simp add: report_def py_defs Let_def split: sum.split)

lemmas run_simps = convert_model_steps py_bind_def load_and_convert_run simplify_step_run
  validate_step_run save_step_run report_run

lemmas sample_defs = sample_run_def sample_lib_def ascii_stdout_def model_opset11_def
  model_opset17_def model_no_opset_def

subsection \<open>The conversion decision\<close>

text \<open>
  C1: when the loaded model declares, in its first opset entry, a version equal to or
  below the target, the run makes no call of the version converter, and the model given
  to the simplifier is the loaded model itself, so with the opset entries it was loaded
  with: the run starts with the load, the two messages and the simplifier's call on it.
\<close>

theorem below_target_skips_conversion:
  assumes "onnx_load L ip = Inr m" and "opset_import m = e # es" and "version e \<le> t"
    and "convert_model L ip op t [] = (tr, r)"
  shows "convert_calls tr = [] \<and> simplify_calls tr = [m] \<and>
         take 5 tr = [Print (Loading ip), Load ip (Inr m), Print (CurrentOpset (version e)),
                      Print Simplifying, Simplify m (simplify L m 3 False False)]"
  using assms
  by (auto simp: run_simps split: sum.splits option.splits prod.splits if_splits)

theorem below_target_skips_conversion_witness:
  "onnx_load (sample_lib model_opset11 []) ''in.onnx'' = Inr model_opset11 \<and>
   opset_import model_opset11 = [\<lparr>domain = [], version = 11\<rparr>] \<and>
   version \<lparr>domain = [], version = 11\<rparr> \<le> 14 \<and>
   convert_calls (fst (sample_run model_opset11 [])) = [] \<and>
   simplify_calls (fst (sample_run model_opset11 [])) = [model_opset11]"
  using below_target_skips_conversion
    [where L = "sample_lib model_opset11 []" and ip = "''in.onnx''" and op = "''out.onnx''"
       and m = model_opset11 and e = "\<lparr>domain = [], version = 11\<rparr>" and es = "[]"
       and t = 14 and tr = "fst (sample_run model_opset11 [])"
       and r = "snd (sample_run model_opset11 [])"]
  by (simp add: sample_defs)

text \<open>
  C2: when the first opset entry of the loaded model declares a version above the target,
  the run calls the version converter exactly once, on the loaded model and with the
  target as its version argument, right after the load and the two messages.
\<close>

theorem above_target_converts_once:
  assumes "onnx_load L ip = Inr m" and "opset_import m = e # es" and "version e > t"
    and "convert_model L ip op t [] = (tr, r)"
  shows "convert_calls tr = [(m, t)] \<and>
         take 5 tr = [Print (Loading ip), Load ip (Inr m), Print (CurrentOpset (version e)),
                      Print (Converting t), ConvertVersion m t (convert_version L m t)]"
  using assms
  by (auto simp: run_simps split: sum.splits option.splits prod.splits if_splits)

theorem above_target_converts_once_witness:
  "onnx_load (sample_lib model_opset17 []) ''in.onnx'' = Inr model_opset17 \<and>
   opset_import model_opset17 =
     [\<lparr>domain = [], version = 17\<rparr>, \<lparr>domain = ''ai.onnx.ml'', version = 3\<rparr>] \<and>
   version \<lparr>domain = [], version = 17\<rparr> > 14 \<and>
   convert_calls (fst (sample_run model_opset17 [])) = [(model_opset17, 14)]"
  using above_target_converts_once
    [where L = "sample_lib model_opset17 []" and ip = "''in.onnx''" and op = "''out.onnx''"
       and m = model_opset17 and e = "\<lparr>domain = [], version = 17\<rparr>"
       and es = "[\<lparr>domain = ''ai.onnx.ml'', version = 3\<rparr>]"
       and t = 14 and tr = "fst (sample_run model_opset17 [])"
       and r = "snd (sample_run model_opset17 [])"]
  by (simp add: sample_defs)

text \<open>
  C8: the decision is taken from the first entry of \<open>opset_import\<close> alone. On a
  model with no entry the run raises IndexError right after the load, before any other
  call; on a model with at least one entry the converter is called (once, with the
  target) exactly when the version of the first entry is above the target, whatever the
  entries after it are.
\<close>

theorem first_opset_entry_decides:
  assumes "onnx_load L ip = Inr m" and "convert_model L ip op t [] = (tr, r)"
  shows "case opset_import m of
           [] \<Rightarrow> r = Inl IndexError \<and> tr = [Print (Loading ip), Load ip (Inr m)]
         | e # es \<Rightarrow> convert_calls tr = (if version e > t then [(m, t)] else [])"
  using assms
  by (auto simp: run_simps split: sum.splits option.splits prod.splits list.splits if_splits)

theorem first_opset_entry_decides_witness:
  "onnx_load (sample_lib model_no_opset []) ''in.onnx'' = Inr model_no_opset \<and>
   opset_import model_no_opset = [] \<and>
   sample_run model_no_opset [] =
     ([Print (Loading ''in.onnx''), Load ''in.onnx'' (Inr model_no_opset)], Inl IndexError) \<and>
   onnx_load (sample_lib model_opset17 []) ''in.onnx'' = Inr model_opset17 \<and>
   convert_calls (fst (sample_run model_opset17 [])) = [(model_opset17, 14)]"
  using first_opset_entry_decides
    [where L = "sample_lib model_no_opset []" and ip = "''in.onnx''" and op = "''out.onnx''"
       and m = model_no_opset and t = 14 and tr = "fst (sample_run model_no_opset [])"
       and r = "snd (sample_run model_no_opset [])"]
    first_opset_entry_decides
    [where L = "sample_lib model_opset17 []" and ip = "''in.onnx''" and op = "''out.onnx''"
       and m = model_opset17 and t = 14 and tr = "fst (sample_run model_opset17 [])"
       and r = "snd (sample_run model_opset17 [])"]
  by (simp add: sample_defs prod_eq_iff)

subsection \<open>The two handlers\<close>

text \<open>
  On a standard output that can encode the symbols, a simplifier that raises on \<open>m\<close>
  is recovered from: the two messages of the handler, then the checker on \<open>m\<close> and
  the save of \<open>m\<close> to the output path; and a simplifier that returns \<open>m'\<close> with
  its check flag false is followed by the warning, the checker on \<open>m'\<close> and the save
  of \<open>m'\<close>.
\<close>

lemma simplify_failure_recovered_if_encodable:
  assumes "stdout_emoji L"
    and "convert_model L ip op t [] = (tr, r)" and "Simplify m (Inl e) \<in> set tr"
  shows "take 4 (events_after (Simplify m (Inl e)) tr) =
           [Print (CouldNotSimplify e), Print ContinuingNonSimplified, Print Validating,
            CheckModel m (check_model L m)] \<and>
         check_calls tr = [m] \<and> save_calls tr = [(m, op)] \<and> raises_only_late tr r"
  using assms
  by (auto simp: run_simps raises_only_late_def
      split: sum.splits option.splits prod.splits list.splits if_splits)

lemma unchecked_simplification_continues_if_encodable:
  assumes "stdout_emoji L"
    and "convert_model L ip op t [] = (tr, r)" and "Simplify m (Inr (m', False)) \<in> set tr"
  shows "take 3 (events_after (Simplify m (Inr (m', False))) tr) =
           [Print SimplificationIssues, Print Validating, CheckModel m' (check_model L m')] \<and>
         check_calls tr = [m'] \<and> save_calls tr = [(m', op)]"
  using assms
  by (auto simp: run_simps split: sum.splits option.splits prod.splits list.splits if_splits)

text \<open>
  On a standard output that cannot encode them, every run that reaches the simplifier
  ends there, whatever the simplifier does: the line printed after it (line 50 or 52,
  inside the \<open>try\<close>) raises, the handler's own line 54 raises again, outside any
  \<open>try\<close>, and \<open>convert_model\<close> raises UnicodeEncodeError with no call of the
  checker and no save.
\<close>

lemma ascii_stdout_ends_at_simplifier:
  assumes "\<not> stdout_emoji L"
    and "convert_model L ip op t [] = (tr, r)" and "Simplify m x \<in> set tr"
  shows "r = Inl UnicodeEncodeError \<and> last tr = Simplify m x \<and>
         check_calls tr = [] \<and> save_calls tr = []"
  using assms
  by (auto simp: run_simps split: sum.splits option.splits prod.splits list.splits if_splits)

text \<open>
  C3: the claim fails on an ASCII standard output. With a simplifier that raises, the
  run of the sample library ends at the simplifier's call: the handler's line 54 raises,
  \<open>convert_model\<close> raises UnicodeEncodeError, the checker is not called and nothing
  is saved.
\<close>

theorem simplify_failure_escapes_on_ascii_stdout:
  "convert_model (ascii_stdout (sample_lib model_opset11 ''simplify''))
     ''in.onnx'' ''out.onnx'' 14 [] =
     ([Print (Loading ''in.onnx''), Load ''in.onnx'' (Inr model_opset11),
       Print (CurrentOpset 11), Print Simplifying,
       Simplify model_opset11 (Inl (LibraryError ''simplify''))],
      Inl UnicodeEncodeError) \<and>
   check_calls (fst (convert_model (ascii_stdout (sample_lib model_opset11 ''simplify''))
     ''in.onnx'' ''out.onnx'' 14 [])) = [] \<and>
   save_calls (fst (convert_model (ascii_stdout (sample_lib model_opset11 ''simplify''))
     ''in.onnx'' ''out.onnx'' 14 [])) = []"
  by (simp add: sample_defs run_simps)

text \<open>
  C9: the claim fails on an ASCII standard output. With a simplifier that returns a
  model and the check flag false, the warning of line 52 raises inside the \<open>try\<close>,
  its handler's line 54 raises again, and \<open>convert_model\<close> raises
  UnicodeEncodeError: the checker is not called and the simplified model is not saved.
\<close>

theorem unchecked_simplification_escapes_on_ascii_stdout:
  "convert_model (ascii_stdout (sample_lib model_opset11 ''compare''))
     ''in.onnx'' ''out.onnx'' 14 [] =
     ([Print (Loading ''in.onnx''), Load ''in.onnx'' (Inr model_opset11),
       Print (CurrentOpset 11), Print Simplifying,
       Simplify model_opset11 (Inr (model_opset11\<lparr>graph := 1\<rparr>, False))],
      Inl UnicodeEncodeError) \<and>
   check_calls (fst (convert_model (ascii_stdout (sample_lib model_opset11 ''compare''))
     ''in.onnx'' ''out.onnx'' 14 [])) = [] \<and>
   save_calls (fst (convert_model (ascii_stdout (sample_lib model_opset11 ''compare''))
     ''in.onnx'' ''out.onnx'' 14 [])) = []"
  by (simp add: sample_defs run_simps)

text \<open>
  C4: in every run in which the checker raises, on the model \<open>m\<close> it was called with,
  the exception is caught: the warning is printed and the save is called next, on the
  same \<open>m\<close> and the output path. The run returns normally unless the save or a size
  query after it raises, and then with that exception.
\<close>

theorem validation_failure_advisory:
  assumes "convert_model L ip op t [] = (tr, r)" and "CheckModel m (Some e) \<in> set tr"
  shows "take 3 (events_after (CheckModel m (Some e)) tr) =
           [Print (ValidationWarning e), Print (Saving op), Save m op (onnx_save L m op)] \<and>
         check_calls tr = [m] \<and> save_calls tr = [(m, op)] \<and> raises_only_late tr r"
  using assms
  by (auto simp: run_simps raises_only_late_def
      split: sum.splits option.splits prod.splits list.splits if_splits)

theorem validation_failure_advisory_witness:
  "CheckModel (model_opset11\<lparr>graph := 1\<rparr>) (Some (LibraryError ''check''))
     \<in> set (fst (sample_run model_opset11 ''check'')) \<and>
   Print (ValidationWarning (LibraryError ''check''))
     \<in> set (fst (sample_run model_opset11 ''check'')) \<and>
   save_calls (fst (sample_run model_opset11 ''check''))
     = [(model_opset11\<lparr>graph := 1\<rparr>, ''out.onnx'')] \<and>
   snd (sample_run model_opset11 ''check'') = Inr ()"
  using validation_failure_advisory
    [where L = "sample_lib model_opset11 ''check''" and ip = "''in.onnx''"
       and op = "''out.onnx''" and t = 14 and m = "model_opset11\<lparr>graph := 1\<rparr>"
       and e = "LibraryError ''check''"
       and tr = "fst (sample_run model_opset11 ''check'')"
       and r = "snd (sample_run model_opset11 ''check'')"]
  by (simp add: sample_defs run_simps)

subsection \<open>Fatal failures\<close>

text \<open>
  C7: in every run in which the load, the version conversion or the save raises, the run
  raises that exception, the failed call is the last event of the run (nothing follows
  it: no further write and no removal of the output), and no save was called before it;
  the run's only save call, if any, is that failed save.
\<close>

theorem fatal_failure_ends_run:
  assumes "convert_model L ip op t [] = (tr, r)" and "ev \<in> set tr" and "fatal_failure ev e"
  shows "r = Inl e \<and> last tr = ev \<and> save_calls (butlast tr) = [] \<and>
         save_calls tr = save_calls [ev]"
  using assms
  by (auto simp: run_simps split: sum.splits option.splits prod.splits list.splits if_splits)

theorem fatal_failure_ends_run_witness:
  "Save (model_opset11\<lparr>graph := 1\<rparr>) ''out.onnx'' (Some (LibraryError ''save''))
     \<in> set (fst (sample_run model_opset11 ''save'')) \<and>
   fatal_failure (Save (model_opset11\<lparr>graph := 1\<rparr>) ''out.onnx'' (Some (LibraryError ''save'')))
     (LibraryError ''save'') \<and>
   snd (sample_run model_opset11 ''save'') = Inl (LibraryError ''save'') \<and>
   last (fst (sample_run model_opset11 ''save''))
     = Save (model_opset11\<lparr>graph := 1\<rparr>) ''out.onnx'' (Some (LibraryError ''save'')) \<and>
   save_calls (butlast (fst (sample_run model_opset11 ''save''))) = [] \<and>
   Load ''in.onnx'' (Inl (LibraryError ''load'')) \<in> set (fst (sample_run model_opset11 ''load'')) \<and>
   fatal_failure (Load ''in.onnx'' (Inl (LibraryError ''load'')) :: nat event)
     (LibraryError ''load'') \<and>
   snd (sample_run model_opset11 ''load'') = Inl (LibraryError ''load'') \<and>
   save_calls (fst (sample_run model_opset11 ''load'')) = []"
  using fatal_failure_ends_run
    [where L = "sample_lib model_opset11 ''save''" and ip = "''in.onnx''"
       and op = "''out.onnx''" and t = 14
       and ev = "Save (model_opset11\<lparr>graph := 1\<rparr>) ''out.onnx'' (Some (LibraryError ''save''))"
       and e = "LibraryError ''save''"
       and tr = "fst (sample_run model_opset11 ''save'')"
       and r = "snd (sample_run model_opset11 ''save'')"]
    fatal_failure_ends_run
    [where L = "sample_lib model_opset11 ''load''" and ip = "''in.onnx''"
       and op = "''out.onnx''" and t = 14
       and ev = "Load ''in.onnx'' (Inl (LibraryError ''load''))"
       and e = "LibraryError ''load''"
       and tr = "fst (sample_run model_opset11 ''load'')"
       and r = "snd (sample_run model_opset11 ''load'')"]
  by (simp add: sample_defs run_simps)

subsection \<open>The command line\<close>

text \<open>
  C5: with fewer than two positional arguments (the arguments after the program name)
  the script prints the three usage lines and exits with code 1; its run contains no
  load, save or size query, and nothing else.
\<close>

theorem too_few_arguments_usage:
  assumes "length (tl argv) < 2"
  shows "main L argv = ([Print Usage, Print Example, Print ExampleCommand], Exited 1) \<and>
         exit_code (snd (main L argv)) = 1 \<and>
         filter is_file_io (fst (main L argv)) = []"
proof -
  from assms have "length argv < 3" by simp
  then show ?thesis by (simp add: main_def)
qed

theorem too_few_arguments_usage_witness:
  "length (tl [''MODEL_CONVERTER.py'', ''in.onnx'']) < 2 \<and>
   main (sample_lib model_opset11 []) [''MODEL_CONVERTER.py'', ''in.onnx'']
     = ([Print Usage, Print Example, Print ExampleCommand], Exited 1) \<and>
   exit_code (snd (main (sample_lib model_opset11 []) [''MODEL_CONVERTER.py'', ''in.onnx''])) = 1"
  using too_few_arguments_usage
    [where argv = "[''MODEL_CONVERTER.py'', ''in.onnx'']" and L = "sample_lib model_opset11 []"]
  by simp

text \<open>
  C6: the exit code of every invocation is 1 when the command line is unusable (fewer
  than two positional arguments, or an opset argument that \<open>int\<close> rejects, which
  ends the process by the uncaught ValueError) or when \<open>convert_model\<close> raises, and
  it is 0 in every other case.
\<close>

theorem exit_code_cases:
  "exit_code (snd (main L argv)) =
     (if length argv < 3 \<or> isl (target_arg L argv) \<or>
         isl (snd (convert_model L (argv ! 1) (argv ! 2) (projr (target_arg L argv)) []))
      then 1 else 0)"
  by (simp add: main_def py_print_def Let_def split: sum.split prod.split)

theorem exit_code_cases_witness:
  "exit_code (snd (main (sample_lib model_opset17 [])
     [''MODEL_CONVERTER.py'', ''in.onnx'', ''out.onnx''])) = 0 \<and>
   exit_code (snd (main (sample_lib model_opset17 ''save'')
     [''MODEL_CONVERTER.py'', ''in.onnx'', ''out.onnx'', ''11''])) = 1 \<and>
   exit_code (snd (main (sample_lib model_opset17 [])
     [''MODEL_CONVERTER.py'', ''in.onnx'', ''out.onnx'', ''eleven''])) = 1 \<and>
   exit_code (snd (main (sample_lib model_opset17 []) [''MODEL_CONVERTER.py''])) = 1"
  using exit_code_cases
    [where L = "sample_lib model_opset17 []"
       and argv = "[''MODEL_CONVERTER.py'', ''in.onnx'', ''out.onnx'']"]
    exit_code_cases
    [where L = "sample_lib model_opset17 ''save''"
       and argv = "[''MODEL_CONVERTER.py'', ''in.onnx'', ''out.onnx'', ''11'']"]
    exit_code_cases
    [where L = "sample_lib model_opset17 []"
       and argv = "[''MODEL_CONVERTER.py'', ''in.onnx'', ''out.onnx'', ''eleven'']"]
    exit_code_cases
    [where L = "sample_lib model_opset17 []" and argv = "[''MODEL_CONVERTER.py'']"]
  by (simp add: target_arg_def sample_defs run_simps)

text \<open>
  C10: with at least three positional arguments of which the third is rejected by
  \<open>int\<close>, the exception is raised before the \<open>try\<close>: nothing is printed by the
  script, its handler with the error message and \<open>sys.exit(1)\<close> is not reached, and
  the process ends by the uncaught exception (interpreter status 1).
\<close>

theorem bad_opset_argument_uncaught:
  assumes "length (tl argv) \<ge> 3" and "py_int L (tl argv ! 2) = Inl e"
  shows "main L argv = ([], Traceback e) \<and> exit_code (snd (main L argv)) = 1"
proof -
  from assms(1) have len: "length argv > 3" by simp
  then have "tl argv ! 2 = argv ! 3"
    by (simp add: nth_tl numeral_3_eq_3)
  with assms(2) have "target_arg L argv = Inl e"
    using len by (simp add: target_arg_def)
  with len show ?thesis by (simp add: main_def)
qed

theorem bad_opset_argument_uncaught_witness:
  "length (tl [''MODEL_CONVERTER.py'', ''in.onnx'', ''out.onnx'', ''eleven'']) \<ge> 3 \<and>
   py_int (sample_lib model_opset11 [])
     (tl [''MODEL_CONVERTER.py'', ''in.onnx'', ''out.onnx'', ''eleven''] ! 2)
     = Inl (ValueError ''eleven'') \<and>
   main (sample_lib model_opset11 []) [''MODEL_CONVERTER.py'', ''in.onnx'', ''out.onnx'', ''eleven'']
     = ([], Traceback (ValueError ''eleven''))"
  using bad_opset_argument_uncaught
    [where L = "sample_lib model_opset11 []"
       and argv = "[''MODEL_CONVERTER.py'', ''in.onnx'', ''out.onnx'', ''eleven'']"
       and e = "ValueError ''eleven''"]
  by (simp add: sample_lib_def)

end
